theory Spec2Isabelle
  imports Main
begin

section \<open>Python values, exceptions and objects\<close>

text \<open>
  The module \<open>main.py\<close> is dynamically typed: the same parameter may receive
  \<open>None\<close>, a string, a list or an instance, and most of what the methods decide is
  decided by \<open>isinstance\<close>, by truthiness and by attribute lookup. The embedding therefore
  has one type of Python values. An instance is its class name with its instance
  dictionary, kept in insertion order as Python keeps it.
\<close>

datatype pyval =
    PyNone
  | PyBool bool
  | PyInt int
  | PyStr string
  | PyList "pyval list"
  | PyTuple "pyval list"
  | PyDict "(pyval \<times> pyval) list"
  | PyPattern string
  | PyMatch "string list"
  | PyObj string "(string \<times> pyval) list"
  | PyBoundMethod pyval string
  | PyGlobal string

text \<open>
  \<open>PyPattern p\<close> is the object \<open>re.compile(p)\<close> returns, \<open>PyMatch gs\<close> a match
  object with its groups, \<open>PyBoundMethod self name\<close> what \<open>self.name\<close> evaluates to
  when \<open>name\<close> is a method of the class, and \<open>PyGlobal name\<close> a class, function or
  module bound at module level.

  Every exception the module can raise is a value; the string is the message (for the
  lookup errors, the name that was not found). \<open>Raised c m\<close> is \<open>raise c(m)\<close> for a
  class \<open>c\<close> bound at module level.
\<close>

datatype error =
    AssertionError string
  | AttributeError string
  | NameError string
  | UnboundLocalError string
  | TypeError string
  | ValueError string
  | ReError string
  | Raised string string

definition bind_err :: "error + 'a \<Rightarrow> ('a \<Rightarrow> error + 'b) \<Rightarrow> error + 'b" where
  "bind_err m f = (case m of Inl e \<Rightarrow> Inl e | Inr x \<Rightarrow> f x)"

text \<open>
  What the module takes from the interpreter and the standard library without defining
  it: the \<open>%\<close> operator, the regular-expression engine (\<open>re.compile\<close> either raises or
  accepts the pattern; \<open>match\<close> gives the groups of a match at the start of the text, or
  nothing), \<open>sys.getsizeof\<close>, \<open>str.capitalize\<close>, \<open>str.format\<close> with two slots, and
  the order comparison of values that are not numbers, the call of a value the module
  does not define, and the two attributes of a class whose values depend on the
  interpreter and on how the module is loaded (\<open>__doc__\<close> and \<open>__module__\<close>, by class
  and attribute name). They are parameters of the model; every result below holds for all
  of them.
\<close>

record pylib =
  py_mod :: "pyval \<Rightarrow> pyval \<Rightarrow> error + pyval"
  re_compile :: "pyval \<Rightarrow> error + pyval"
  re_match :: "string \<Rightarrow> string \<Rightarrow> string list option"
  getsizeof :: "pyval \<Rightarrow> int"
  capitalize :: "pyval \<Rightarrow> error + pyval"
  format2 :: "pyval \<Rightarrow> pyval \<Rightarrow> string"
  le_other :: "pyval \<Rightarrow> pyval \<Rightarrow> error + bool"
  class_data :: "string \<Rightarrow> string \<Rightarrow> pyval"
  py_call :: "pyval \<Rightarrow> pyval list \<Rightarrow> error + pyval"

subsection \<open>Truthiness, \<open>isinstance\<close>, \<open>or\<close>\<close>

text \<open>
  \<open>bool(x)\<close>: \<open>None\<close>, \<open>False\<close>, zero and the empty string, list, tuple and dict are
  false. No class of the module defines \<open>__bool__\<close> or \<open>__len__\<close>, so its instances
  are true.
\<close>

fun truthy :: "pyval \<Rightarrow> bool" where
  "truthy PyNone = False"
| "truthy (PyBool b) = b"
| "truthy (PyInt i) = (i \<noteq> 0)"
| "truthy (PyStr s) = (s \<noteq> [])"
| "truthy (PyList xs) = (xs \<noteq> [])"
| "truthy (PyTuple xs) = (xs \<noteq> [])"
| "truthy (PyDict kvs) = (kvs \<noteq> [])"
| "truthy (PyPattern p) = True"
| "truthy (PyMatch gs) = True"
| "truthy (PyObj c d) = True"
| "truthy (PyBoundMethod self name) = True"
| "truthy (PyGlobal name) = True"

definition py_or :: "pyval \<Rightarrow> pyval \<Rightarrow> pyval" where
  "py_or a b = (if truthy a then a else b)"

fun is_str :: "pyval \<Rightarrow> bool" where
  "is_str (PyStr s) = True"
| "is_str v = False"

fun is_list :: "pyval \<Rightarrow> bool" where
  "is_list (PyList xs) = True"
| "is_list v = False"

fun is_dict :: "pyval \<Rightarrow> bool" where
  "is_dict (PyDict kvs) = True"
| "is_dict v = False"

text \<open>\<open>all(map(lambda t: isinstance(t, str), xs))\<close>; iterating a non-iterable raises.\<close>

fun py_iter :: "pyval \<Rightarrow> error + pyval list" where
  "py_iter (PyList xs) = Inr xs"
| "py_iter (PyTuple xs) = Inr xs"
| "py_iter (PyStr s) = Inr (map (\<lambda>c. PyStr [c]) s)"
| "py_iter (PyDict kvs) = Inr (map fst kvs)"
| "py_iter PyNone = Inl (TypeError ''NoneType object is not iterable'')"
| "py_iter (PyBool b) = Inl (TypeError ''bool object is not iterable'')"
| "py_iter (PyInt i) = Inl (TypeError ''int object is not iterable'')"
| "py_iter (PyPattern p) = Inl (TypeError ''re.Pattern object is not iterable'')"
| "py_iter (PyMatch gs) = Inl (TypeError ''re.Match object is not iterable'')"
| "py_iter (PyObj c d) = Inl (TypeError (c @ '' object is not iterable''))"
| "py_iter (PyBoundMethod self name) = Inl (TypeError ''method object is not iterable'')"
| "py_iter (PyGlobal name) = Inl (TypeError ''object is not iterable'')"

definition all_str :: "pyval \<Rightarrow> error + bool" where
  "all_str v = bind_err (py_iter v) (\<lambda>xs. Inr (list_all is_str xs))"

definition py_any :: "pyval \<Rightarrow> error + pyval" where
  "py_any v = bind_err (py_iter v) (\<lambda>xs. Inr (PyBool (list_ex truthy xs)))"

text \<open>\<open>d.get(k)\<close>: the value stored under \<open>k\<close>, or \<open>None\<close>.\<close>

fun dict_get :: "(pyval \<times> pyval) list \<Rightarrow> pyval \<Rightarrow> pyval" where
  "dict_get [] k = PyNone"
| "dict_get ((k', v) # kvs) k = (if k' = k then v else dict_get kvs k)"

subsection \<open>Classes and attribute lookup\<close>

text \<open>
  The classes of the module with the names each class body binds, and the one base class
  that is not \<open>object\<close>. \<open>object_attrs\<close> are the attributes every instance has from
  \<open>object\<close> and from the class statement itself (Python 3.11 and 3.12); all of them are
  methods except \<open>__class__\<close>, \<open>__doc__\<close>, \<open>__module__\<close> and \<open>__weakref__\<close>.
\<close>

definition own_methods :: "string \<Rightarrow> string list" where
  "own_methods c =
     (if c = ''Note'' then [''__init__'', ''__repr__'']
      else if c = ''NoteParser'' then [''__init__'', ''parse_tags'', ''note_is_tagged'']
      else if c = ''TaggedNote'' then [''__init__'', ''parse_tagged_note'']
      else if c = ''NoteWriter'' then [''__init__'', ''_get_tags_dict'', ''to_dict'', ''to_csv'']
      else if c = ''NoteBlock'' then [''__init__'', ''_add_note_to_block'', ''add_notes_to_block'']
      else if c = ''NoteCompiler'' then [''__init__'']
      else [])"

definition base_class :: "string \<Rightarrow> string option" where
  "base_class c = (if c = ''TaggedNote'' then Some ''Note'' else None)"

definition class_methods :: "string \<Rightarrow> string list" where
  "class_methods c =
     own_methods c @ (case base_class c of None \<Rightarrow> [] | Some b \<Rightarrow> own_methods b)"

definition object_attrs :: "string list" where
  "object_attrs =
     [''__class__'', ''__delattr__'', ''__dir__'', ''__doc__'', ''__eq__'', ''__format__'',
      ''__ge__'', ''__getattribute__'', ''__getstate__'', ''__gt__'', ''__hash__'',
      ''__init__'', ''__init_subclass__'', ''__le__'', ''__lt__'', ''__module__'', ''__ne__'',
      ''__new__'', ''__reduce__'', ''__reduce_ex__'', ''__repr__'', ''__setattr__'',
      ''__sizeof__'', ''__str__'', ''__subclasshook__'', ''__weakref__'']"

text \<open>\<open>isinstance(x, Note)\<close>: an instance of \<open>Note\<close> or of its subclass.\<close>

fun is_Note :: "pyval \<Rightarrow> bool" where
  "is_Note (PyObj c d) = (c = ''Note'' \<or> base_class c = Some ''Note'')"
| "is_Note v = False"

text \<open>\<open>self.name = v\<close>: a new key goes to the end of the instance dictionary.\<close>

fun assign :: "string \<Rightarrow> pyval \<Rightarrow> (string \<times> pyval) list \<Rightarrow> (string \<times> pyval) list" where
  "assign k v [] = [(k, v)]"
| "assign k v ((k', v') # kvs) =
     (if k' = k then (k, v) # kvs else (k', v') # assign k v kvs)"

text \<open>
  \<open>setattr\<close> is applied to instances only (\<open>self\<close> inside a method); on any other value
  it is the identity here.
\<close>

fun setattr :: "pyval \<Rightarrow> string \<Rightarrow> pyval \<Rightarrow> pyval" where
  "setattr (PyObj c d) k v = PyObj c (assign k v d)"
| "setattr x k v = x"

text \<open>\<open>a + b\<close> on the values of the model; \<open>bool\<close> is a subclass of \<open>int\<close>.\<close>

fun as_int :: "pyval \<Rightarrow> int option" where
  "as_int (PyInt i) = Some i"
| "as_int (PyBool b) = Some (if b then 1 else 0)"
| "as_int v = None"

definition add_err :: "error + pyval" where
  "add_err = Inl (TypeError ''unsupported operand type(s) for +'')"

definition py_add :: "pyval \<Rightarrow> pyval \<Rightarrow> error + pyval" where
  "py_add a b =
     (case a of
        PyStr x \<Rightarrow> (case b of PyStr y \<Rightarrow> Inr (PyStr (x @ y)) | _ \<Rightarrow> add_err)
      | PyList x \<Rightarrow> (case b of PyList y \<Rightarrow> Inr (PyList (x @ y)) | _ \<Rightarrow> add_err)
      | PyTuple x \<Rightarrow> (case b of PyTuple y \<Rightarrow> Inr (PyTuple (x @ y)) | _ \<Rightarrow> add_err)
      | _ \<Rightarrow>
          (case as_int a of
             None \<Rightarrow> add_err
           | Some i \<Rightarrow>
               (case as_int b of None \<Rightarrow> add_err | Some j \<Rightarrow> Inr (PyInt (i + j)))))"

definition py_le :: "pylib \<Rightarrow> pyval \<Rightarrow> pyval \<Rightarrow> error + bool" where
  "py_le lib a b =
     (case as_int a of
        None \<Rightarrow> le_other lib a b
      | Some i \<Rightarrow> (case as_int b of None \<Rightarrow> le_other lib a b | Some j \<Rightarrow> Inr (i \<le> j)))"

text \<open>
  Attribute lookup on an instance: the instance dictionary, then the class (a method
  comes back bound; \<open>all_tags\<close> is a property of \<open>TaggedNote\<close> and is computed),
  then \<open>object\<close>; a name found nowhere raises \<open>AttributeError\<close>. Of the attributes
  that are not methods, \<open>__class__\<close> is the class, \<open>__weakref__\<close> is \<open>None\<close>, and
  \<open>__doc__\<close> and \<open>__module__\<close> are what the interpreter gives. A dict has its
  built-in methods and nothing else.
\<close>

definition inst_lookup :: "pylib \<Rightarrow> pyval \<Rightarrow> string \<Rightarrow> error + pyval" where
  "inst_lookup lib self name =
     (case self of
        PyObj c d \<Rightarrow>
          (case map_of d name of
             Some v \<Rightarrow> Inr v
           | None \<Rightarrow>
               if name \<in> set (class_methods c) then Inr (PyBoundMethod self name)
               else if name = ''__class__'' then Inr (PyGlobal c)
               else if name = ''__weakref__'' then Inr PyNone
               else if name = ''__doc__'' \<or> name = ''__module__''
                 then Inr (class_data lib c name)
               else if name \<in> set object_attrs then Inr (PyBoundMethod self name)
               else Inl (AttributeError name))
      | _ \<Rightarrow> Inl (AttributeError name))"

definition all_tags :: "pylib \<Rightarrow> pyval \<Rightarrow> error + pyval" where
  "all_tags lib self =
     bind_err (inst_lookup lib self ''header_tags'') (\<lambda>h.
     bind_err (inst_lookup lib self ''body_tags'') (\<lambda>b. py_add h b))"

definition dict_methods :: "string list" where
  "dict_methods =
     [''clear'', ''copy'', ''fromkeys'', ''get'', ''items'', ''keys'', ''pop'', ''popitem'',
      ''setdefault'', ''update'', ''values'']"

definition getattr :: "pylib \<Rightarrow> pyval \<Rightarrow> string \<Rightarrow> error + pyval" where
  "getattr lib x name =
     (case x of
        PyObj c d \<Rightarrow>
          if c = ''TaggedNote'' \<and> name = ''all_tags'' then all_tags lib x
          else if name = ''__dict__'' then Inr (PyDict (map (\<lambda>(k, v). (PyStr k, v)) d))
          else inst_lookup lib x name
      | PyDict kvs \<Rightarrow>
          if name \<in> set dict_methods then Inr (PyBoundMethod x name)
          else Inl (AttributeError name)
      | _ \<Rightarrow> Inl (AttributeError name))"

text \<open>
  Names bound at module level (the imports and the class statements, in source order) and
  the built-ins the module refers to. A name that is neither raises \<open>NameError\<close>.
\<close>

definition module_names :: "string list" where
  "module_names =
     [''print_function'', ''re'', ''csv'', ''sys'', ''boto3'',
      ''NoteException'', ''NoteParserException'', ''NoteWriterException'',
      ''Note'', ''NoteParser'', ''TaggedNote'', ''NoteWriter'', ''NoteBlock'',
      ''NoteCompiler'', ''Backend'']"

definition builtin_names :: "string list" where
  "builtin_names =
     [''Exception'', ''isinstance'', ''str'', ''dict'', ''list'', ''any'', ''all'', ''map'',
      ''zip'', ''super'', ''property'', ''classmethod'']"

definition lookup_global :: "string \<Rightarrow> error + pyval" where
  "lookup_global name =
     (if name \<in> set module_names \<or> name \<in> set builtin_names
      then Inr (PyGlobal name) else Inl (NameError name))"

section \<open>Note\<close>

text \<open>
  \<^verbatim>\<open>
  def __init__(self, header, body, namespace=None):
      assert isinstance(header, str), "Header is not a string."
      assert isinstance(body, str), "Body is not a string."
      assert isinstance(namespace, str), "Namespace is not a string."
      self.header = header
      self.body = body
      self.namespace = "" if not namespace else namespace
  \<close>
  Assertions are executed (the interpreter's default mode). \<open>Note_init\<close> is the method on
  a given \<open>self\<close> (the subclass calls it through \<open>super()\<close>); \<open>Note_new\<close> is the call
  \<open>Note(header, body)\<close> or \<open>Note(header, body, namespace)\<close>: an omitted argument takes
  the default \<open>None\<close>.
\<close>

definition Note_init :: "pyval \<Rightarrow> pyval \<Rightarrow> pyval \<Rightarrow> pyval \<Rightarrow> error + pyval" where
  "Note_init self header body namespace =
     (if \<not> is_str header then Inl (AssertionError ''Header is not a string.'')
      else if \<not> is_str body then Inl (AssertionError ''Body is not a string.'')
      else if \<not> is_str namespace then Inl (AssertionError ''Namespace is not a string.'')
      else
        let self1 = setattr self ''header'' header;
            self2 = setattr self1 ''body'' body;
            self3 = setattr self2 ''namespace''
                      (if \<not> truthy namespace then PyStr [] else namespace)
        in Inr self3)"

definition Note_new :: "pyval \<Rightarrow> pyval \<Rightarrow> pyval option \<Rightarrow> error + pyval" where
  "Note_new header body namespace =
     Note_init (PyObj ''Note'' []) header body
       (case namespace of None \<Rightarrow> PyNone | Some ns \<Rightarrow> ns)"

text \<open>\<open>__repr__\<close> returns the list \<open>[self.header, self.body, self.namespace]\<close>.\<close>

definition Note_repr :: "pylib \<Rightarrow> pyval \<Rightarrow> error + pyval" where
  "Note_repr lib self =
     bind_err (getattr lib self ''header'') (\<lambda>h.
     bind_err (getattr lib self ''body'') (\<lambda>b.
     bind_err (getattr lib self ''namespace'') (\<lambda>n. Inr (PyList [h, b, n]))))"

section \<open>NoteParser\<close>

text \<open>
  \<^verbatim>\<open>
  def __init__(self, config):
      assert isinstance(config, dict), "Config is not a dict."
      self._default_pattern = config.get("default_pattern") or "(?:^|/s)(?:%s)([a-zA-Z/d]+)"
      self._default_tag_char = config.get("tag_char") or "#"
      self._regex = re.compile(self._default_pattern % self._tag_char)
  \<close>
  The argument of \<open>re.compile\<close> is evaluated left to right: \<open>self._default_pattern\<close>,
  then \<open>self._tag_char\<close>, then \<open>%\<close>.
\<close>

definition NoteParser_init :: "pylib \<Rightarrow> pyval \<Rightarrow> pyval \<Rightarrow> error + pyval" where
  "NoteParser_init lib self config =
     (case config of
        PyDict kvs \<Rightarrow>
          let self1 = setattr self ''_default_pattern''
                        (py_or (dict_get kvs (PyStr ''default_pattern''))
                               (PyStr ''(?:^|/s)(?:%s)([a-zA-Z/d]+)''));
              self2 = setattr self1 ''_default_tag_char''
                        (py_or (dict_get kvs (PyStr ''tag_char'')) (PyStr ''#''))
          in bind_err (getattr lib self2 ''_default_pattern'') (\<lambda>pat.
             bind_err (getattr lib self2 ''_tag_char'') (\<lambda>tc.
             bind_err (py_mod lib pat tc) (\<lambda>s.
             bind_err (re_compile lib s) (\<lambda>rx.
             Inr (setattr self2 ''_regex'' rx)))))
      | _ \<Rightarrow> Inl (AssertionError ''Config is not a dict.''))"

definition NoteParser_new :: "pylib \<Rightarrow> pyval \<Rightarrow> error + pyval" where
  "NoteParser_new lib config = NoteParser_init lib (PyObj ''NoteParser'' []) config"

text \<open>
  \<open>rx.match(text)\<close> in the order Python evaluates it. \<open>match_attr\<close> is the attribute
  \<open>rx.match\<close>: only a compiled pattern has the method. \<open>regex_match\<close> is its call
  on the argument: a match object or \<open>None\<close>; a text that is not a string raises
  \<open>TypeError\<close>.
\<close>

definition match_attr :: "pyval \<Rightarrow> error + string" where
  "match_attr rx =
     (case rx of PyPattern p \<Rightarrow> Inr p | _ \<Rightarrow> Inl (AttributeError ''match''))"

definition regex_match :: "pylib \<Rightarrow> string \<Rightarrow> pyval \<Rightarrow> error + pyval" where
  "regex_match lib p text =
     (case text of
        PyStr t \<Rightarrow>
          Inr (case re_match lib p t of None \<Rightarrow> PyNone | Some gs \<Rightarrow> PyMatch gs)
      | _ \<Rightarrow> Inl (TypeError ''expected string or bytes-like object''))"

text \<open>
  \<^verbatim>\<open>
  def parse_tags(self, note):
      return self._regex.match(note.header), self._regex.match(note.body)
  \<close>
  Each call resolves \<open>self._regex\<close> and its \<open>match\<close> before the argument is read.
\<close>

definition parse_tags :: "pylib \<Rightarrow> pyval \<Rightarrow> pyval \<Rightarrow> error + pyval" where
  "parse_tags lib self note =
     bind_err (getattr lib self ''_regex'') (\<lambda>rx1.
     bind_err (match_attr rx1) (\<lambda>p1.
     bind_err (getattr lib note ''header'') (\<lambda>h.
     bind_err (regex_match lib p1 h) (\<lambda>m1.
     bind_err (getattr lib self ''_regex'') (\<lambda>rx2.
     bind_err (match_attr rx2) (\<lambda>p2.
     bind_err (getattr lib note ''body'') (\<lambda>b.
     bind_err (regex_match lib p2 b) (\<lambda>m2.
     Inr (PyTuple [m1, m2])))))))))"

text \<open>
  \<^verbatim>\<open>
  def note_is_tagged(self, note):
      return any(self.parse_tags)
  \<close>
  The argument of \<open>any\<close> is the attribute \<open>self.parse_tags\<close> itself; the method is
  not called and \<open>note\<close> is not used.
\<close>

definition note_is_tagged :: "pylib \<Rightarrow> pyval \<Rightarrow> pyval \<Rightarrow> error + pyval" where
  "note_is_tagged lib self note = bind_err (getattr lib self ''parse_tags'') (\<lambda>m. py_any m)"

section \<open>TaggedNote\<close>

text \<open>
  \<^verbatim>\<open>
  def __init__(self, header, body, namespace, header_tags, body_tags):
      super().__init__(header, body, namespace)
      assert isinstance(header_tags, list), "Header tags is not a list."
      assert isinstance(body_tags, list), "Body tags is not a list."
      assert all(map(lambda t: isinstance(t, str), header_tags)), "Header tags is not a list of strings"
      assert all(map(lambda t: isinstance(t, str), body_tags)), "Body tags is not a list of strings"
      self.header_tags = header_tags or []
      self.body_tags = body_tags or []
  \<close>
\<close>

definition TaggedNote_init ::
  "pyval \<Rightarrow> pyval \<Rightarrow> pyval \<Rightarrow> pyval \<Rightarrow> pyval \<Rightarrow> pyval \<Rightarrow> error + pyval" where
  "TaggedNote_init self header body namespace header_tags body_tags =
     bind_err (Note_init self header body namespace) (\<lambda>self1.
       if \<not> is_list header_tags then Inl (AssertionError ''Header tags is not a list.'')
       else if \<not> is_list body_tags then Inl (AssertionError ''Body tags is not a list.'')
       else
         bind_err (all_str header_tags) (\<lambda>hs_ok.
           if \<not> hs_ok then Inl (AssertionError ''Header tags is not a list of strings'')
           else
             bind_err (all_str body_tags) (\<lambda>bs_ok.
               if \<not> bs_ok then Inl (AssertionError ''Body tags is not a list of strings'')
               else
                 let self2 = setattr self1 ''header_tags'' (py_or header_tags (PyList []));
                     self3 = setattr self2 ''body_tags'' (py_or body_tags (PyList []))
                 in Inr self3)))"

definition TaggedNote_new ::
  "pyval \<Rightarrow> pyval \<Rightarrow> pyval \<Rightarrow> pyval \<Rightarrow> pyval \<Rightarrow> error + pyval" where
  "TaggedNote_new header body namespace header_tags body_tags =
     TaggedNote_init (PyObj ''TaggedNote'' []) header body namespace header_tags body_tags"

text \<open>
  \<^verbatim>\<open>
  @classmethod
  def parse_tagged_note(cls, note, parser):
      header_tags, body_tags = parser.parse_tags(note)
      return cls(note.header, note.body, note.namespace, header_tags, body_tags)
  \<close>
  \<open>parser\<close> is a \<open>NoteParser\<close> and \<open>cls\<close> is \<open>TaggedNote\<close>, the only class that has
  the method. The assignment unpacks a sequence of exactly two elements.
\<close>

definition parse_tagged_note :: "pylib \<Rightarrow> pyval \<Rightarrow> pyval \<Rightarrow> error + pyval" where
  "parse_tagged_note lib note parser =
     bind_err (parse_tags lib parser note) (\<lambda>r.
     bind_err (py_iter r) (\<lambda>elems.
       case elems of
         [header_tags, body_tags] \<Rightarrow>
           bind_err (getattr lib note ''header'') (\<lambda>h.
           bind_err (getattr lib note ''body'') (\<lambda>b.
           bind_err (getattr lib note ''namespace'') (\<lambda>n.
           TaggedNote_new h b n header_tags body_tags)))
       | _ \<Rightarrow> Inl (ValueError ''wrong number of values to unpack'')))"

section \<open>NoteWriter\<close>

text \<open>
  \<^verbatim>\<open>
  def __init__(self, config):
      assert isinstance(config, dict), "Config is not a dict."
      self._annotate = config.get("annotate") or False
  \<close>
\<close>

definition NoteWriter_init :: "pyval \<Rightarrow> pyval \<Rightarrow> error + pyval" where
  "NoteWriter_init self config =
     (case config of
        PyDict kvs \<Rightarrow>
          Inr (setattr self ''_annotate''
                 (py_or (dict_get kvs (PyStr ''annotate'')) (PyBool False)))
      | _ \<Rightarrow> Inl (AssertionError ''Config is not a dict.''))"

definition NoteWriter_new :: "pyval \<Rightarrow> error + pyval" where
  "NoteWriter_new config = NoteWriter_init (PyObj ''NoteWriter'' []) config"

text \<open>
  \<open>zip(xs, ys)\<close> pairs the elements up to the shorter argument; the pairs are kept as a
  list of tuples.
\<close>

definition py_zip :: "pyval \<Rightarrow> pyval \<Rightarrow> error + pyval" where
  "py_zip a b =
     bind_err (py_iter a) (\<lambda>xs.
     bind_err (py_iter b) (\<lambda>ys.
     Inr (PyList (map (\<lambda>(x, y). PyTuple [x, y]) (zip xs ys)))))"

text \<open>
  \<^verbatim>\<open>
  def _get_tags_dict(self, note):
      return zip(["headertags", "bodytags"], self._parse_all_tags(note))
  \<close>
\<close>

definition get_tags_dict :: "pylib \<Rightarrow> pyval \<Rightarrow> pyval \<Rightarrow> error + pyval" where
  "get_tags_dict lib self note =
     bind_err (getattr lib self ''_parse_all_tags'') (\<lambda>f.
     bind_err (py_call lib f [note]) (\<lambda>tags.
     py_zip (PyList [PyStr ''headertags'', PyStr ''bodytags'']) tags))"

text \<open>
  \<^verbatim>\<open>
  def to_dict(self, tagged=True):
      assert isinstance(note, Note), "%s is not a Note object."
      return note.__dict__.merge(self._get_tags_dict) if tagged else note.__dict__
  \<close>
  \<open>note\<close> is not a parameter and is not assigned in the body, so it is looked up at
  module level.
\<close>

definition to_dict :: "pylib \<Rightarrow> pyval \<Rightarrow> pyval \<Rightarrow> error + pyval" where
  "to_dict lib self tagged =
     bind_err (lookup_global ''note'') (\<lambda>note.
       if \<not> is_Note note then Inl (AssertionError ''%s is not a Note object.'')
       else if truthy tagged then
         bind_err (getattr lib note ''__dict__'') (\<lambda>d.
         bind_err (getattr lib d ''merge'') (\<lambda>merge.
         bind_err (getattr lib self ''_get_tags_dict'') (\<lambda>g.
         py_call lib merge [g])))
       else getattr lib note ''__dict__'')"

text \<open>
  \<^verbatim>\<open>
  def to_csv(self, note):
      if not annotate:
          return note.__repr__
      return ["{}{}".format(key.capitalize(), value) for (key, value) in note.as_dict.items()]
  \<close>
  \<open>annotate\<close> is a bare name, looked up at module level (the flag the constructor
  stores is \<open>self._annotate\<close>). The first branch returns the attribute
  \<open>note.__repr__\<close>, not its result.
\<close>

fun map_err :: "('a \<Rightarrow> error + 'b) \<Rightarrow> 'a list \<Rightarrow> error + 'b list" where
  "map_err f [] = Inr []"
| "map_err f (x # xs) =
     bind_err (f x) (\<lambda>y. bind_err (map_err f xs) (\<lambda>ys. Inr (y # ys)))"

definition dict_items :: "pyval \<Rightarrow> error + (pyval \<times> pyval) list" where
  "dict_items d = (case d of PyDict kvs \<Rightarrow> Inr kvs | _ \<Rightarrow> Inl (AttributeError ''items''))"

definition to_csv :: "pylib \<Rightarrow> pyval \<Rightarrow> pyval \<Rightarrow> error + pyval" where
  "to_csv lib self note =
     bind_err (lookup_global ''annotate'') (\<lambda>annotate.
       if \<not> truthy annotate then getattr lib note ''__repr__''
       else
         bind_err (getattr lib note ''as_dict'') (\<lambda>d.
         bind_err (dict_items d) (\<lambda>kvs.
         bind_err (map_err (\<lambda>(key, val).
                     bind_err (capitalize lib key) (\<lambda>k. Inr (PyStr (format2 lib k val)))) kvs)
           (\<lambda>cells. Inr (PyList cells)))))"

section \<open>NoteBlock\<close>

text \<open>
  \<^verbatim>\<open>
  def __init__(self):
      self._MAX_NOTE_BLOCK_SIZE = 1024*30
      self._note_block = []
  \<close>
\<close>

definition NoteBlock_init :: "pyval \<Rightarrow> pyval" where
  "NoteBlock_init self =
     (let self1 = setattr self ''_MAX_NOTE_BLOCK_SIZE'' (PyInt (1024 * 30));
          self2 = setattr self1 ''_note_block'' (PyList [])
      in self2)"

definition NoteBlock_new :: pyval where
  "NoteBlock_new = NoteBlock_init (PyObj ''NoteBlock'' [])"

text \<open>\<open>xs += v\<close> on a list extends it with the elements of the iterable \<open>v\<close>.\<close>

definition py_iadd :: "pyval \<Rightarrow> pyval \<Rightarrow> error + pyval" where
  "py_iadd a v =
     (case a of
        PyList xs \<Rightarrow> bind_err (py_iter v) (\<lambda>ys. Inr (PyList (xs @ ys)))
      | _ \<Rightarrow> py_add a v)"

text \<open>
  \<^verbatim>\<open>
  def _add_note_to_block(self, note):
      if self.note_block_size + sys.getsizeof(note) <= self._MAX_NOTE_BLOCK_SIZE:
          self._note_block += note
      else:
          raise NoteBlockException("Cannot add note to block.")
  \<close>
  The method changes \<open>self\<close> and may raise: the result is the block after the call with
  the exception, if one was raised. \<open>block_fits\<close> is the condition of the \<open>if\<close>, its
  operands evaluated left to right.
\<close>

definition block_fits :: "pylib \<Rightarrow> pyval \<Rightarrow> pyval \<Rightarrow> error + bool" where
  "block_fits lib self note =
     bind_err (getattr lib self ''note_block_size'') (\<lambda>used.
     bind_err (py_add used (PyInt (getsizeof lib note))) (\<lambda>total.
     bind_err (getattr lib self ''_MAX_NOTE_BLOCK_SIZE'') (\<lambda>limit.
     py_le lib total limit)))"

definition add_note_to_block :: "pylib \<Rightarrow> pyval \<Rightarrow> pyval \<Rightarrow> pyval \<times> error option" where
  "add_note_to_block lib self note =
     (case block_fits lib self note of
        Inl e \<Rightarrow> (self, Some e)
      | Inr fits \<Rightarrow>
          if fits then
            (case bind_err (getattr lib self ''_note_block'') (\<lambda>blk. py_iadd blk note) of
               Inl e \<Rightarrow> (self, Some e)
             | Inr blk \<Rightarrow> (setattr self ''_note_block'' blk, None))
          else
            (case lookup_global ''NoteBlockException'' of
               Inl e \<Rightarrow> (self, Some e)
             | Inr c \<Rightarrow> (self, Some (Raised ''NoteBlockException'' ''Cannot add note to block.''))))"

text \<open>
  \<^verbatim>\<open>
  def add_notes_to_block(self, notes):
      if isinstance(notes, list):
          for note in notes:
              self._add_note_to_block(note)
      elif isinstance(notes, note):
          self._add_note_to_block(note)
      else:
          raise NoteBlockException("Cannot add note to block.")
  \<close>
  The loop stops at the first exception. In the \<open>elif\<close>, \<open>note\<close> is the loop variable,
  a local that has no value on that path.
\<close>

fun add_each :: "pylib \<Rightarrow> pyval \<Rightarrow> pyval list \<Rightarrow> pyval \<times> error option" where
  "add_each lib self [] = (self, None)"
| "add_each lib self (note # notes) =
     (case add_note_to_block lib self note of
        (self1, None) \<Rightarrow> add_each lib self1 notes
      | (self1, Some e) \<Rightarrow> (self1, Some e))"

definition add_notes_to_block :: "pylib \<Rightarrow> pyval \<Rightarrow> pyval \<Rightarrow> pyval \<times> error option" where
  "add_notes_to_block lib self notes =
     (case notes of
        PyList ns \<Rightarrow> add_each lib self ns
      | _ \<Rightarrow> (self, Some (UnboundLocalError ''note'')))"

section \<open>NoteCompiler\<close>

text \<open>
  \<^verbatim>\<open>
  def __init__(self, config):
      self._note_parser = NoteParser(config)
      self._note_writer = NoteWriter(config)
      self._note_block = NoteBlock()
  \<close>
  The class body binds no other name.
\<close>

definition NoteCompiler_init :: "pylib \<Rightarrow> pyval \<Rightarrow> pyval \<Rightarrow> error + pyval" where
  "NoteCompiler_init lib self config =
     bind_err (NoteParser_new lib config) (\<lambda>parser.
       let self1 = setattr self ''_note_parser'' parser
       in bind_err (NoteWriter_new config) (\<lambda>writer.
            let self2 = setattr self1 ''_note_writer'' writer;
                self3 = setattr self2 ''_note_block'' NoteBlock_new
            in Inr self3))"

definition NoteCompiler_new :: "pylib \<Rightarrow> pyval \<Rightarrow> error + pyval" where
  "NoteCompiler_new lib config = NoteCompiler_init lib (PyObj ''NoteCompiler'' []) config"

section \<open>Predicates and instances used in the statements\<close>

text \<open>A list whose elements are all strings.\<close>

definition is_str_list :: "pyval \<Rightarrow> bool" where
  "is_str_list v = (case v of PyList xs \<Rightarrow> list_all is_str xs | _ \<Rightarrow> False)"

text \<open>
  The instance dictionaries the constructors build: a parser after \<open>__init__\<close> has
  these three attributes and a block these two, whatever their values.
\<close>

definition parser_obj :: "pyval \<Rightarrow> pyval \<Rightarrow> pyval \<Rightarrow> pyval" where
  "parser_obj pat tag_char rx =
     PyObj ''NoteParser''
       [(''_default_pattern'', pat), (''_default_tag_char'', tag_char), (''_regex'', rx)]"

definition block_obj :: "pyval \<Rightarrow> pyval \<Rightarrow> pyval" where
  "block_obj limit members =
     PyObj ''NoteBlock'' [(''_MAX_NOTE_BLOCK_SIZE'', limit), (''_note_block'', members)]"

definition note_obj :: "string \<Rightarrow> string \<Rightarrow> string \<Rightarrow> pyval" where
  "note_obj h b ns =
     PyObj ''Note'' [(''header'', PyStr h), (''body'', PyStr b), (''namespace'', PyStr ns)]"



text \<open>
  One instance of the library, for running the model on concrete inputs. Its engine is
  \<open>match\<close> on the default pattern with the tag character \<open>#\<close>, that is on
  \<^verbatim>\<open>(?:^|/s)(?:#)([a-zA-Z/d]+)\<close>: at the start of the text, \<open>#\<close> or the three
  characters \<open>/s#\<close>, then one or more characters of the class (the letters and the
  slash; the class has no digits), which are the group. Other patterns never match in this
  instance, a plain instance takes 56 bytes, the module is run as a script and the class
  docstrings are given as absent.
\<close>

definition tag_class :: "char \<Rightarrow> bool" where
  "tag_class c = (c \<in> set ''abcdefghijklmnopqrstuvwxyzABCDEFGHIJKLMNOPQRSTUVWXYZ/'')"

definition default_match :: "string \<Rightarrow> string list option" where
  "default_match t =
     (let rest = (if take 1 t = ''#'' then Some (drop 1 t)
                  else if take 3 t = ''/s#'' then Some (drop 3 t)
                  else None)
      in case rest of
           None \<Rightarrow> None
         | Some r \<Rightarrow>
             (let g = takeWhile tag_class r in if g = [] then None else Some [g]))"

definition sample_lib :: pylib where
  "sample_lib =
     \<lparr> py_mod = (\<lambda>a b. Inl (TypeError ''unsupported operand type(s) for %'')),
       re_compile = (\<lambda>p. case p of PyStr s \<Rightarrow> Inr (PyPattern s)
                              | _ \<Rightarrow> Inl (TypeError ''first argument must be string'')),
       re_match = (\<lambda>p t. if p = ''(?:^|/s)(?:#)([a-zA-Z/d]+)'' then default_match t else None),
       getsizeof = (\<lambda>v. 56),
       capitalize = (\<lambda>v. Inl (AttributeError ''capitalize'')),
       format2 = (\<lambda>a b. []),
       le_other = (\<lambda>a b. Inl (TypeError ''<= not supported'')),
       class_data = (\<lambda>c a. if a = ''__module__'' then PyStr ''__main__'' else PyNone),
       py_call = (\<lambda>f args. Inl (TypeError ''object is not callable'')) \<rparr>"

section \<open>Basic facts\<close>

lemma bind_err_simps [simp]:
  "bind_err (Inl e) f = Inl e"
  "bind_err (Inr x) f = f x"
  by (simp_all add: bind_err_def)

lemmas lookup_defs = getattr_def inst_lookup_def class_methods_def own_methods_def
  base_class_def object_attrs_def

lemmas global_defs = lookup_global_def module_names_def builtin_names_def

lemma is_str_iff: "is_str v \<longleftrightarrow> (\<exists>s. v = PyStr s)"
  by (cases v) simp_all

lemma is_list_iff: "is_list v \<longleftrightarrow> (\<exists>xs. v = PyList xs)"
  by (cases v) simp_all

lemma all_str_list [simp]: "all_str (PyList xs) = Inr (list_all is_str xs)"
  by (simp add: all_str_def)

lemma NoteBlock_new_obj: "NoteBlock_new = block_obj (PyInt 30720) (PyList [])"
  by (simp add: NoteBlock_new_def NoteBlock_init_def block_obj_def)

section \<open>Note and TaggedNote construction\<close>

lemma Note_init_fresh:
  "Note_init (PyObj c []) (PyStr x) (PyStr y) (PyStr z) =
     Inr (PyObj c [(''header'', PyStr x), (''body'', PyStr y), (''namespace'', PyStr z)])"
  by (simp add: Note_init_def)

lemma Note_init_rejects:
  "\<not> is_str h \<or> \<not> is_str b \<or> \<not> is_str ns \<Longrightarrow>
     \<exists>m. Note_init self h b ns = Inl (AssertionError m)"
  by (auto simp: Note_init_def)

lemma Note_init_accepts:
  "Note_init self h b ns = Inr n \<Longrightarrow> is_str h \<and> is_str b \<and> is_str ns"
  by (auto simp: Note_init_def split: if_splits)

lemma Note_new_accepts:
  assumes "Note_new h b nso = Inr n"
  shows "\<exists>x y z. n = note_obj x y z"
proof -
  let ?ns = "case nso of None \<Rightarrow> PyNone | Some v \<Rightarrow> v"
  from assms have n: "Note_init (PyObj ''Note'' []) h b ?ns = Inr n"
    by (simp add: Note_new_def)
  from Note_init_accepts [OF n] obtain x y z
    where "h = PyStr x" "b = PyStr y" "?ns = PyStr z"
    unfolding is_str_iff by blast
  with n have "n = note_obj x y z"
    by (simp add: Note_init_fresh note_obj_def)
  then show ?thesis by blast
qed

lemma TaggedNote_new_rejects:
  assumes "\<not> is_str h \<or> \<not> is_str b \<or> \<not> is_str ns \<or> \<not> is_str_list ht \<or> \<not> is_str_list bt"
  shows "\<exists>m. TaggedNote_new h b ns ht bt = Inl (AssertionError m)"
proof (cases "is_str h \<and> is_str b \<and> is_str ns")
  case False
  then obtain m where "Note_init (PyObj ''TaggedNote'' []) h b ns = Inl (AssertionError m)"
    using Note_init_rejects by blast
  then show ?thesis by (simp add: TaggedNote_new_def TaggedNote_init_def)
next
  case True
  then obtain x y z where hbn: "h = PyStr x" "b = PyStr y" "ns = PyStr z"
    by (auto simp: is_str_iff)
  from True assms have bad: "\<not> is_str_list ht \<or> \<not> is_str_list bt" by simp
  show ?thesis
  proof (cases "is_list ht \<and> is_list bt")
    case False
    then show ?thesis
      by (auto simp: TaggedNote_new_def TaggedNote_init_def hbn Note_init_fresh)
  next
    case True
    then obtain hs bs where l: "ht = PyList hs" "bt = PyList bs"
      by (auto simp: is_list_iff)
    with bad have "\<not> list_all is_str hs \<or> \<not> list_all is_str bs"
      by (simp add: is_str_list_def)
    then show ?thesis
      by (auto simp: TaggedNote_new_def TaggedNote_init_def hbn l Note_init_fresh)
  qed
qed

lemma TaggedNote_new_accepts:
  assumes "TaggedNote_new h b ns ht bt = Inr t"
  shows "\<exists>x y z hs bs.
           t = PyObj ''TaggedNote''
                 [(''header'', PyStr x), (''body'', PyStr y), (''namespace'', PyStr z),
                  (''header_tags'', PyList hs), (''body_tags'', PyList bs)] \<and>
           list_all is_str hs \<and> list_all is_str bs"
proof -
  from assms obtain n where n: "Note_init (PyObj ''TaggedNote'' []) h b ns = Inr n"
    by (cases "Note_init (PyObj ''TaggedNote'' []) h b ns")
       (simp_all add: TaggedNote_new_def TaggedNote_init_def)
  from Note_init_accepts [OF n] obtain x y z
    where hbn: "h = PyStr x" "b = PyStr y" "ns = PyStr z"
    unfolding is_str_iff by blast
  from assms have "is_list ht \<and> is_list bt"
    by (auto simp: TaggedNote_new_def TaggedNote_init_def hbn Note_init_fresh split: if_splits)
  then obtain hs bs where l: "ht = PyList hs" "bt = PyList bs"
    by (auto simp: is_list_iff)
  from assms have ok: "list_all is_str hs \<and> list_all is_str bs"
    by (auto simp: TaggedNote_new_def TaggedNote_init_def hbn l Note_init_fresh
             split: if_splits)
  with assms have
    "t = PyObj ''TaggedNote''
           [(''header'', PyStr x), (''body'', PyStr y), (''namespace'', PyStr z),
            (''header_tags'', PyList hs), (''body_tags'', PyList bs)]"
    by (cases hs; cases bs)
       (auto simp: TaggedNote_new_def TaggedNote_init_def hbn l Note_init_fresh py_or_def)
  with ok show ?thesis by blast
qed

text \<open>
  Claim C10. The constructors check the types of their arguments. \<open>Note(h, b, ns)\<close> with
  a header, body or namespace that is not a string raises \<open>AssertionError\<close>, and so does
  \<open>TaggedNote(h, b, ns, ht, bt)\<close> when one of the first three is not a string or one of
  the tag arguments is not a list of strings. Conversely every \<open>Note\<close> that is
  constructed has three string fields, and every \<open>TaggedNote\<close> that is constructed has
  them and two lists that contain only strings.
\<close>

theorem constructors_check_types:
  "(\<not> is_str h1 \<or> \<not> is_str b1 \<or> \<not> is_str ns1 \<longrightarrow>
      (\<exists>m. Note_new h1 b1 (Some ns1) = Inl (AssertionError m)))
   \<and> (\<not> is_str h2 \<or> \<not> is_str b2 \<or> \<not> is_str ns2 \<or> \<not> is_str_list ht2 \<or> \<not> is_str_list bt2 \<longrightarrow>
      (\<exists>m. TaggedNote_new h2 b2 ns2 ht2 bt2 = Inl (AssertionError m)))
   \<and> (Note_new h3 b3 nso3 = Inr n \<longrightarrow>
      (\<exists>x y z. n = PyObj ''Note''
                   [(''header'', PyStr x), (''body'', PyStr y), (''namespace'', PyStr z)]))
   \<and> (TaggedNote_new h4 b4 ns4 ht4 bt4 = Inr t \<longrightarrow>
      (\<exists>x y z hs bs.
          t = PyObj ''TaggedNote''
                [(''header'', PyStr x), (''body'', PyStr y), (''namespace'', PyStr z),
                 (''header_tags'', PyList hs), (''body_tags'', PyList bs)] \<and>
          list_all is_str hs \<and> list_all is_str bs))"
proof (intro conjI impI)
  assume "\<not> is_str h1 \<or> \<not> is_str b1 \<or> \<not> is_str ns1"
  then show "\<exists>m. Note_new h1 b1 (Some ns1) = Inl (AssertionError m)"
    unfolding Note_new_def by (simp add: Note_init_rejects)
next
  assume "\<not> is_str h2 \<or> \<not> is_str b2 \<or> \<not> is_str ns2 \<or> \<not> is_str_list ht2 \<or> \<not> is_str_list bt2"
  then show "\<exists>m. TaggedNote_new h2 b2 ns2 ht2 bt2 = Inl (AssertionError m)"
    by (rule TaggedNote_new_rejects)
next
  assume "Note_new h3 b3 nso3 = Inr n"
  from Note_new_accepts [OF this]
  show "\<exists>x y z. n = PyObj ''Note''
                   [(''header'', PyStr x), (''body'', PyStr y), (''namespace'', PyStr z)]"
    by (simp add: note_obj_def)
next
  assume "TaggedNote_new h4 b4 ns4 ht4 bt4 = Inr t"
  then show "\<exists>x y z hs bs.
          t = PyObj ''TaggedNote''
                [(''header'', PyStr x), (''body'', PyStr y), (''namespace'', PyStr z),
                 (''header_tags'', PyList hs), (''body_tags'', PyList bs)] \<and>
          list_all is_str hs \<and> list_all is_str bs"
    by (rule TaggedNote_new_accepts)
qed

theorem constructors_check_types_witness:
  "\<not> is_str (PyInt 7)
   \<and> (\<exists>m. Note_new (PyInt 7) (PyStr ''b'') (Some (PyStr ''n'')) = Inl (AssertionError m))
   \<and> \<not> is_str_list (PyList [PyStr ''work'', PyInt 3])
   \<and> (\<exists>m. TaggedNote_new (PyStr ''h'') (PyStr ''b'') (PyStr ''n'')
              (PyList [PyStr ''work'', PyInt 3]) (PyList []) = Inl (AssertionError m))
   \<and> Note_new (PyStr ''h'') (PyStr ''b'') (Some (PyStr [])) = Inr (note_obj ''h'' ''b'' [])
   \<and> (\<exists>x y z. note_obj ''h'' ''b'' [] =
         PyObj ''Note'' [(''header'', PyStr x), (''body'', PyStr y), (''namespace'', PyStr z)])
   \<and> TaggedNote_new (PyStr ''h'') (PyStr ''b'') (PyStr ''n'')
        (PyList [PyStr ''work'']) (PyList []) =
       Inr (PyObj ''TaggedNote''
              [(''header'', PyStr ''h''), (''body'', PyStr ''b''), (''namespace'', PyStr ''n''),
               (''header_tags'', PyList [PyStr ''work'']), (''body_tags'', PyList [])])
   \<and> (\<exists>x y z hs bs.
         PyObj ''TaggedNote''
              [(''header'', PyStr ''h''), (''body'', PyStr ''b''), (''namespace'', PyStr ''n''),
               (''header_tags'', PyList [PyStr ''work'']), (''body_tags'', PyList [])] =
         PyObj ''TaggedNote''
              [(''header'', PyStr x), (''body'', PyStr y), (''namespace'', PyStr z),
               (''header_tags'', PyList hs), (''body_tags'', PyList bs)] \<and>
         list_all is_str hs \<and> list_all is_str bs)"
proof -
  have a1: "\<not> is_str (PyInt 7)"
    by simp
  have a2: "\<not> is_str_list (PyList [PyStr ''work'', PyInt 3])"
    by (simp add: is_str_list_def)
  have a3: "Note_new (PyStr ''h'') (PyStr ''b'') (Some (PyStr [])) = Inr (note_obj ''h'' ''b'' [])"
    by (simp add: Note_new_def Note_init_def note_obj_def)
  have a4: "TaggedNote_new (PyStr ''h'') (PyStr ''b'') (PyStr ''n'')
        (PyList [PyStr ''work'']) (PyList []) =
       Inr (PyObj ''TaggedNote''
              [(''header'', PyStr ''h''), (''body'', PyStr ''b''), (''namespace'', PyStr ''n''),
               (''header_tags'', PyList [PyStr ''work'']), (''body_tags'', PyList [])])"
    by (simp add: TaggedNote_new_def TaggedNote_init_def Note_init_def py_or_def)
  note T = constructors_check_types
    [where ?h1.0 = "PyInt 7" and ?b1.0 = "PyStr ''b''" and ?ns1.0 = "PyStr ''n''"
       and ?h2.0 = "PyStr ''h''" and ?b2.0 = "PyStr ''b''" and ?ns2.0 = "PyStr ''n''"
       and ?ht2.0 = "PyList [PyStr ''work'', PyInt 3]" and ?bt2.0 = "PyList []"
       and ?h3.0 = "PyStr ''h''" and ?b3.0 = "PyStr ''b''" and ?nso3.0 = "Some (PyStr [])"
       and n = "note_obj ''h'' ''b'' []"
       and ?h4.0 = "PyStr ''h''" and ?b4.0 = "PyStr ''b''" and ?ns4.0 = "PyStr ''n''"
       and ?ht4.0 = "PyList [PyStr ''work'']" and ?bt4.0 = "PyList []"
       and t = "PyObj ''TaggedNote''
              [(''header'', PyStr ''h''), (''body'', PyStr ''b''), (''namespace'', PyStr ''n''),
               (''header_tags'', PyList [PyStr ''work'']), (''body_tags'', PyList [])]"]
  from T a1 a2 a3 a4 show ?thesis by blast
qed

text \<open>
  Claim C9. The spec states that a note built from a header and a body alone is
  constructed and has the empty namespace. On the code the omitted argument is \<open>None\<close>,
  and the third assertion of \<open>__init__\<close> rejects it before the line that would replace it
  by the empty string is reached; the empty namespace is stored only when it is passed.
\<close>

theorem default_namespace_rejected:
  "Note_new (PyStr h) (PyStr b) None = Inl (AssertionError ''Namespace is not a string.'')
   \<and> Note_new (PyStr h) (PyStr b) (Some (PyStr [])) = Inr (note_obj h b [])"
  by (simp add: Note_new_def Note_init_def note_obj_def)

section \<open>NoteParser and tag extraction\<close>

lemma NoteParser_new_raises:
  "NoteParser_new lib (PyDict kvs) = Inl (AttributeError ''_tag_char'')"
  by (simp add: NoteParser_new_def NoteParser_init_def Let_def lookup_defs)

lemma parse_tags_obj:
  "parse_tags lib (parser_obj p c (PyPattern rx)) (note_obj h b ns) =
     Inr (PyTuple [case re_match lib rx h of None \<Rightarrow> PyNone | Some gs \<Rightarrow> PyMatch gs,
                   case re_match lib rx b of None \<Rightarrow> PyNone | Some gs \<Rightarrow> PyMatch gs])"
  by (simp add: parse_tags_def parser_obj_def note_obj_def match_attr_def regex_match_def
        lookup_defs)

lemma match_result_not_list:
  "\<not> is_list (case m of None \<Rightarrow> PyNone | Some gs \<Rightarrow> PyMatch gs)"
  by (cases m) simp_all

lemma parse_tagged_note_obj:
  "parse_tagged_note lib (note_obj h b ns) (parser_obj p c (PyPattern rx)) =
     Inl (AssertionError ''Header tags is not a list.'')"
  by (simp add: parse_tagged_note_def parse_tags_obj match_result_not_list
        TaggedNote_new_def TaggedNote_init_def)
     (simp add: note_obj_def lookup_defs Note_init_def)

text \<open>
  Claim C3. The spec states that with the default tag character the note with header
  \<open>Meeting #work #urgent\<close> and body \<open>notes #todo\<close> yields the header tags \<open>work\<close>,
  \<open>urgent\<close> and the body tag \<open>todo\<close>. On the code no parser can be built: for every
  configuration dictionary \<open>NoteParser(config)\<close> raises \<open>AttributeError\<close>, because
  \<open>__init__\<close> stores the tag character as \<open>_default_tag_char\<close> and reads \<open>_tag_char\<close>.
  Given a parser object with any compiled pattern, \<open>parse_tagged_note\<close> on this note
  raises \<open>AssertionError\<close>, because \<open>parse_tags\<close> returns match results and not lists;
  with the default pattern both results are \<open>None\<close>, since \<open>match\<close> looks at the
  start of the text only.
\<close>

theorem scenario_tags_not_extracted:
  "NoteParser_new lib (PyDict []) = Inl (AttributeError ''_tag_char'')
   \<and> parse_tagged_note lib (note_obj ''Meeting #work #urgent'' ''notes #todo'' [])
        (parser_obj p c (PyPattern rx)) = Inl (AssertionError ''Header tags is not a list.'')
   \<and> parse_tags sample_lib
        (parser_obj p c (PyPattern ''(?:^|/s)(?:#)([a-zA-Z/d]+)''))
        (note_obj ''Meeting #work #urgent'' ''notes #todo'' []) = Inr (PyTuple [PyNone, PyNone])"
  by (simp add: NoteParser_new_raises parse_tagged_note_obj parse_tags_obj
        sample_lib_def default_match_def)

text \<open>
  Claim C5. The spec states that extraction over a text without tags returns an empty
  sequence and never fails. On the code, when the pattern matches neither the header nor
  the body, \<open>parse_tags\<close> returns the pair \<open>(None, None)\<close>, and deriving the tagged note
  from it raises \<open>AssertionError\<close>: \<open>TaggedNote.__init__\<close> asserts that the tags are
  lists.
\<close>

theorem no_match_is_None_and_rejected:
  "re_match lib rx h = None \<and> re_match lib rx b = None \<longrightarrow>
     parse_tags lib (parser_obj p c (PyPattern rx)) (note_obj h b ns) =
       Inr (PyTuple [PyNone, PyNone])
     \<and> parse_tagged_note lib (note_obj h b ns) (parser_obj p c (PyPattern rx)) =
       Inl (AssertionError ''Header tags is not a list.'')"
  by (simp add: parse_tags_obj parse_tagged_note_obj)

theorem no_match_is_None_and_rejected_witness:
  "(re_match sample_lib ''(?:^|/s)(?:#)([a-zA-Z/d]+)'' ''plain'' = None
    \<and> re_match sample_lib ''(?:^|/s)(?:#)([a-zA-Z/d]+)'' ''text'' = None)
   \<and> parse_tags sample_lib
        (parser_obj (PyStr ''(?:^|/s)(?:%s)([a-zA-Z/d]+)'') (PyStr ''#'')
           (PyPattern ''(?:^|/s)(?:#)([a-zA-Z/d]+)''))
        (note_obj ''plain'' ''text'' []) = Inr (PyTuple [PyNone, PyNone])
   \<and> parse_tagged_note sample_lib (note_obj ''plain'' ''text'' [])
        (parser_obj (PyStr ''(?:^|/s)(?:%s)([a-zA-Z/d]+)'') (PyStr ''#'')
           (PyPattern ''(?:^|/s)(?:#)([a-zA-Z/d]+)'')) =
       Inl (AssertionError ''Header tags is not a list.'')"
proof -
  have a: "re_match sample_lib ''(?:^|/s)(?:#)([a-zA-Z/d]+)'' ''plain'' = None
    \<and> re_match sample_lib ''(?:^|/s)(?:#)([a-zA-Z/d]+)'' ''text'' = None"
    by (simp add: sample_lib_def default_match_def)
  note T = no_match_is_None_and_rejected
    [where lib = sample_lib and rx = "''(?:^|/s)(?:#)([a-zA-Z/d]+)''"
       and h = "''plain''" and b = "''text''" and ns = "[]"
       and p = "PyStr ''(?:^|/s)(?:%s)([a-zA-Z/d]+)''" and c = "PyStr ''#''"]
  from T a show ?thesis by blast
qed

text \<open>
  Claim C7. The spec states that \<open>note_is_tagged\<close> is true exactly when the header or
  the body has a tag. On the code the method passes the bound method \<open>self.parse_tags\<close>
  to \<open>any\<close> without calling it, so for every parser and every note it raises
  \<open>TypeError\<close>.
\<close>

theorem note_is_tagged_raises:
  "note_is_tagged lib (parser_obj p c rx) note =
     Inl (TypeError ''method object is not iterable'')"
  by (simp add: note_is_tagged_def py_any_def parser_obj_def lookup_defs)

section \<open>NoteWriter\<close>

lemma Note_repr_obj:
  "Note_repr lib (note_obj h b ns) = Inr (PyList [PyStr h, PyStr b, PyStr ns])"
  by (simp add: Note_repr_def note_obj_def lookup_defs)

text \<open>
  Claim C6. The spec states that an exported record has the three fields header, body,
  namespace without annotation, and five fields with it. On the code \<open>to_csv\<close> raises
  \<open>NameError\<close> for every writer and note, because its first statement reads the bare
  name \<open>annotate\<close>; \<open>to_dict\<close> raises \<open>NameError\<close> on the name \<open>note\<close>. Past the
  test, the first branch of \<open>to_csv\<close> would return the bound method \<open>note.__repr__\<close>
  and the second would read \<open>note.as_dict\<close>, which no note has.
\<close>

theorem export_raises_NameError:
  "to_csv lib self note = Inl (NameError ''annotate'')
   \<and> to_dict lib self tagged = Inl (NameError ''note'')
   \<and> getattr lib (note_obj h b ns) ''__repr__'' =
       Inr (PyBoundMethod (note_obj h b ns) ''__repr__'')
   \<and> getattr lib (note_obj h b ns) ''as_dict'' = Inl (AttributeError ''as_dict'')"
  by (simp add: to_csv_def to_dict_def global_defs note_obj_def lookup_defs)

section \<open>NoteBlock\<close>

lemma add_note_to_block_obj:
  "add_note_to_block lib (block_obj limit members) note =
     (block_obj limit members, Some (AttributeError ''note_block_size''))"
  by (simp add: add_note_to_block_def block_fits_def block_obj_def lookup_defs)

text \<open>
  Claim C1. The spec states that after any sequence of successful adds the running byte
  total of the block is the sum of the sizes of the notes added, within the capacity. On
  the code the block has no running total: \<open>__init__\<close> sets the limit and the empty
  member list only, the size test reads \<open>self.note_block_size\<close>, and so the first add of
  every non-empty sequence raises \<open>AttributeError\<close> and the block stays as constructed.
\<close>

theorem running_total_never_defined:
  "getattr lib NoteBlock_new ''note_block_size'' = Inl (AttributeError ''note_block_size'')
   \<and> add_notes_to_block lib NoteBlock_new (PyList (note # notes)) =
       (NoteBlock_new, Some (AttributeError ''note_block_size''))"
  by (simp add: add_notes_to_block_def NoteBlock_new_obj add_note_to_block_obj)
     (simp add: block_obj_def lookup_defs)

text \<open>
  Claim C2. The spec states that an add that would pass the capacity fails with the
  capacity exception and leaves the block unchanged. On the code every add, whatever the
  size of the note, raises \<open>AttributeError\<close> before the comparison is made; the block
  is unchanged. The exception class the \<open>else\<close> branch names, \<open>NoteBlockException\<close>, is
  not defined in the module.
\<close>

theorem add_fails_before_capacity_test:
  "add_note_to_block lib (block_obj limit members) note =
     (block_obj limit members, Some (AttributeError ''note_block_size''))
   \<and> lookup_global ''NoteBlockException'' = Inl (NameError ''NoteBlockException'')"
  by (simp add: add_note_to_block_obj global_defs)

text \<open>
  Claim C8. The spec states that an add of a note that fits appends the note at the end
  of the members. On the code the add to a new block raises \<open>AttributeError\<close> and the
  members stay empty. Were the attribute \<open>note_block_size\<close> set on the block from
  outside and the note within the limit, the statement \<open>self._note_block += note\<close> would
  raise \<open>TypeError\<close>, an instance not being iterable, and again leave the members as
  they were.
\<close>

theorem add_never_appends:
  "add_note_to_block lib NoteBlock_new note =
     (NoteBlock_new, Some (AttributeError ''note_block_size''))
   \<and> (used + getsizeof lib (PyObj c d) \<le> limit \<longrightarrow>
        add_note_to_block lib
          (PyObj ''NoteBlock'' [(''_MAX_NOTE_BLOCK_SIZE'', PyInt limit),
             (''_note_block'', PyList xs), (''note_block_size'', PyInt used)])
          (PyObj c d) =
        (PyObj ''NoteBlock'' [(''_MAX_NOTE_BLOCK_SIZE'', PyInt limit),
             (''_note_block'', PyList xs), (''note_block_size'', PyInt used)],
         Some (TypeError (c @ '' object is not iterable''))))"
  by (simp add: NoteBlock_new_obj add_note_to_block_obj)
     (simp add: add_note_to_block_def block_fits_def lookup_defs py_add_def py_le_def
        py_iadd_def)

theorem add_never_appends_witness:
  "(0 + getsizeof sample_lib (note_obj ''a'' ''b'' []) \<le> 30720)
   \<and> add_note_to_block sample_lib NoteBlock_new (note_obj ''a'' ''b'' []) =
       (NoteBlock_new, Some (AttributeError ''note_block_size''))
   \<and> add_note_to_block sample_lib
        (PyObj ''NoteBlock'' [(''_MAX_NOTE_BLOCK_SIZE'', PyInt 30720),
           (''_note_block'', PyList []), (''note_block_size'', PyInt 0)])
        (note_obj ''a'' ''b'' []) =
       (PyObj ''NoteBlock'' [(''_MAX_NOTE_BLOCK_SIZE'', PyInt 30720),
           (''_note_block'', PyList []), (''note_block_size'', PyInt 0)],
        Some (TypeError ''Note object is not iterable''))"
proof -
  have a: "0 + getsizeof sample_lib (PyObj ''Note''
             [(''header'', PyStr ''a''), (''body'', PyStr ''b''), (''namespace'', PyStr [])])
           \<le> 30720"
    by (simp add: sample_lib_def)
  note T = add_never_appends
    [where lib = sample_lib and used = 0 and limit = 30720 and xs = "[]" and c = "''Note''"
       and d = "[(''header'', PyStr ''a''), (''body'', PyStr ''b''), (''namespace'', PyStr [])]"
       and ?note = "note_obj ''a'' ''b'' []"]
  from T a show ?thesis unfolding note_obj_def by simp
qed

section \<open>NoteCompiler\<close>



lemma NoteCompiler_new_raises:
  "NoteCompiler_new lib (PyDict kvs) = Inl (AttributeError ''_tag_char'')"
  by (simp add: NoteCompiler_new_def NoteCompiler_init_def NoteParser_new_raises)

end
